theory Spec2Isabelle
  imports Main "HOL-Library.Word"
begin

section \<open>The terminal view of sshx: \<open>src/lib/ui/XTerm.svelte\<close>\<close>

text \<open>
  The component wraps an xterm.js terminal. Its module script holds two process-wide
  singletons (the font gate \<open>waitForFonts\<close> and the prototype patch \<open>patchXTerm\<close>); its
  instance script holds the state of one mounted view (the engine reference, the preload
  buffer, the drag state) and the markup wires DOM listeners to it.

  xterm.js, the \<open>buffer\<close> package and the Svelte runtime are libraries outside the
  repository. The engine is modelled by the calls it receives, a handler of the engine by
  what a call of it returns, emits and changes. A handler is a function of its argument
  and its receiver alone, and a method is looked up on the prototype of the class itself.
  The custom key handler, the \<open>onData\<close> callback and \<open>onDestroy\<close> are left out: they touch
  none of the state modelled here.
\<close>

subsection \<open>JavaScript values\<close>

text \<open>A JavaScript string is a sequence of UTF-16 code units.\<close>

type_synonym js_string = "16 word list"

datatype js_error = TypeError

text \<open>
  The values that reach the patched handlers: \<open>IParams ps\<close> is the engine's parameter
  object, whose field \<open>params\<close> is the \<open>Int32Array\<close> \<open>ps\<close>.
\<close>

datatype js_value =
    Undefined
  | Boolean bool
  | Number int
  | Uint32Array "32 word list"
  | IParams "int list"

type_synonym js_object = "string \<rightharpoonup> js_value"

text \<open>
  What one call of an engine handler does: the value it returns, the replies it sends back
  into the input channel (xterm's \<open>triggerDataEvent\<close>), and the receiver afterwards.
\<close>

record outcome =
  returned :: js_value
  replies :: "js_string list"
  receiver :: js_object

type_synonym handler = "js_value \<Rightarrow> js_object \<Rightarrow> js_error + outcome"

subsection \<open>Engine classes and instances\<close>

text \<open>
  A class is the address of its prototype object; the prototype maps method names to
  handlers. Instances share the prototype of their class, so an assignment to it is seen
  by every instance. \<open>patched\<close> is the flag in the closure of \<open>patchXTerm\<close>.
\<close>

type_synonym class_id = nat

type_synonym prototype = "string \<rightharpoonup> handler"

record world =
  patched :: bool
  prototypes :: "class_id \<Rightarrow> prototype"

text \<open>The calls a terminal instance received through its public interface, in order.\<close>

datatype engine_call =
    AttachCustomKeyEventHandler
  | LoadAddon
  | Open
  | Resize int int
  | OnTitleChange
  | WriteCall js_string
  | OnData
  | OnBinary

record input_handler_obj =
  ih_constructor :: class_id

record core_obj =
  constructor :: class_id
  inputHandler :: "input_handler_obj option"

text \<open>
  \<open>core\<close> is the property \<open>_core\<close> and \<open>inputHandler\<close> the property \<open>_inputHandler\<close>;
  \<open>None\<close> is a property that is missing (\<open>undefined\<close>).
\<close>

record terminal =
  core :: "core_obj option"
  calls :: "engine_call list"

definition set_method :: "class_id \<Rightarrow> string \<Rightarrow> handler \<Rightarrow> world \<Rightarrow> world" where
  "set_method c n h w = w\<lparr>prototypes := (prototypes w)(c := (prototypes w c)(n \<mapsto> h))\<rparr>"

text \<open>A method call on an instance of class \<open>c\<close>; calling a missing method is a TypeError.\<close>

definition invoke :: "world \<Rightarrow> class_id \<Rightarrow> string \<Rightarrow> js_value \<Rightarrow> js_object \<Rightarrow> js_error + outcome" where
  "invoke w c n arg this =
     (case prototypes w c n of
        None \<Rightarrow> Inl TypeError
      | Some h \<Rightarrow> h arg this)"

subsection \<open>\<open>patchXTerm\<close>\<close>

text \<open>The replacement \<open>() => {}\<close>.\<close>

definition noop :: handler where
  "noop arg this = Inr \<lparr>returned = Undefined, replies = [], receiver = this\<rparr>"

text \<open>The replacement of \<open>unhook\<close>: \<open>this._data = new Uint32Array(0); return true\<close>.\<close>

definition unhook_patch :: handler where
  "unhook_patch arg this =
     Inr \<lparr>returned = Boolean True, replies = [],
          receiver = this(''_data'' \<mapsto> Uint32Array [])\<rparr>"

text \<open>
  \<open>params.params[0]\<close>: reading \<open>params\<close> of \<open>undefined\<close> throws, and so does reading index 0
  of the \<open>undefined\<close> that a value without a \<open>params\<close> property gives; index 0 of an empty
  array is \<open>undefined\<close>.
\<close>

fun params_first :: "js_value \<Rightarrow> js_error + js_value" where
  "params_first (IParams []) = Inr Undefined"
| "params_first (IParams (x # xs)) = Inr (Number x)"
| "params_first v = Inl TypeError"

text \<open>
  The replacement of \<open>windowOptions\<close>, closed over the handler read from the prototype
  before the assignment (\<open>None\<close> when the prototype had none, and then \<open>.call\<close> throws).
\<close>

definition windowOptions_patch :: "handler option \<Rightarrow> handler" where
  "windowOptions_patch windowOptions params this =
     (case params_first params of
        Inl e \<Rightarrow> Inl e
      | Inr p \<Rightarrow>
          if p = Number 18 then Inr \<lparr>returned = Boolean True, replies = [], receiver = this\<rparr>
          else (case windowOptions of
                  None \<Rightarrow> Inl TypeError
                | Some h \<Rightarrow> h params this))"

definition patchXTerm :: "terminal \<Rightarrow> world \<Rightarrow> (js_error + unit) \<times> world" where
  "patchXTerm t w =
     (if patched w then (Inr (), w)
      else
        let w0 = w\<lparr>patched := True\<rparr> in
        case core t of
          None \<Rightarrow> (Inl TypeError, w0)
        | Some c \<Rightarrow>
            (case inputHandler c of
               None \<Rightarrow> (Inl TypeError, w0)
             | Some ih \<Rightarrow>
                 let Terminal = constructor c;
                     InputHandler = ih_constructor ih;
                     w1 = set_method Terminal ''_handleColorEvent'' noop w0;
                     w2 = set_method Terminal ''_reportFocus'' noop w1;
                     w3 = set_method InputHandler ''unhook'' unhook_patch w2;
                     w4 = set_method InputHandler ''sendDeviceAttributesPrimary'' noop w3;
                     w5 = set_method InputHandler ''sendDeviceAttributesSecondary'' noop w4;
                     w6 = set_method InputHandler ''deviceStatus'' noop w5;
                     w7 = set_method InputHandler ''deviceStatusPrivate'' noop w6;
                     windowOptions = prototypes w7 InputHandler ''windowOptions'';
                     w8 = set_method InputHandler ''windowOptions''
                            (windowOptions_patch windowOptions) w7
                 in (Inr (), w8)))"

text \<open>
  The engine class the component imports: \<open>new Terminal({...})\<close> gives an instance whose
  \<open>_core\<close> is of the core class and whose \<open>_core._inputHandler\<close> is of the input handler
  class. The visual options do not reach the modelled state.
\<close>

definition Terminal_class :: class_id where
  "Terminal_class = 0"

definition InputHandler_class :: class_id where
  "InputHandler_class = 1"

definition new_Terminal :: terminal where
  "new_Terminal =
     \<lparr>core = Some \<lparr>constructor = Terminal_class,
                    inputHandler = Some \<lparr>ih_constructor = InputHandler_class\<rparr>\<rparr>,
      calls = []\<rparr>"

text \<open>
  Two engines to run the definitions on. \<open>replying_world\<close> has the shape of xterm 4: the
  input handler answers a device status query and every window option query, and the
  \<open>unhook\<close> that answers a status string request (DECRQSS) is a method of the class of the
  DCS handler that the input handler registers with its parser, not of the input handler.
  In \<open>bare_world\<close> the classes have none of the handlers the patch names.
\<close>

definition DECRQSS_class :: class_id where
  "DECRQSS_class = 2"

definition reply_with :: "js_string \<Rightarrow> handler" where
  "reply_with r arg this = Inr \<lparr>returned = Boolean True, replies = [r], receiver = this\<rparr>"

definition replying_world :: world where
  "replying_world =
     \<lparr>patched = False,
      prototypes = (\<lambda>c. if c = InputHandler_class
                        then [''deviceStatus'' \<mapsto> reply_with [0x1B, 0x5B, 0x30, 0x6E],
                              ''windowOptions'' \<mapsto> reply_with [0x1B, 0x5B, 0x38, 0x74]]
                        else if c = DECRQSS_class
                        then [''unhook'' \<mapsto>
                                reply_with [0x1B, 0x50, 0x30, 0x24, 0x72, 0x1B, 0x5C]]
                        else Map.empty)\<rparr>"

definition bare_world :: world where
  "bare_world = \<lparr>patched = False, prototypes = (\<lambda>c. Map.empty)\<rparr>"

subsection \<open>The state of one view\<close>

text \<open>The events of \<open>createEventDispatcher\<close>; \<open>Data\<close> carries a \<open>Uint8Array\<close>.\<close>

datatype outbound =
    Data "8 word list"
  | Move int int
  | Moving int int
  | Close
  | Focus

text \<open>
  The variables of the instance script. \<open>term_obj\<close> is the variable \<open>term\<close> (\<open>None\<close> is
  \<open>null\<close>); \<open>dispatched\<close> collects what \<open>dispatch\<close> was called with. Page coordinates and
  sizes are taken to be integers.
\<close>

record view =
  rows :: int
  cols :: int
  term_obj :: "terminal option"
  loaded :: bool
  currentTitle :: js_string
  preloadBuffer :: "js_string list"
  dragging :: bool
  prevMouseX :: int
  prevMouseY :: int
  dispatched :: "outbound list"

definition new_view :: "int \<Rightarrow> int \<Rightarrow> view" where
  "new_view r c =
     \<lparr>rows = r, cols = c, term_obj = None, loaded = False,
      currentTitle = map of_char ''Remote Terminal'',
      preloadBuffer = [], dragging = False, prevMouseX = 0, prevMouseY = 0,
      dispatched = []\<rparr>"

definition dispatch :: "outbound \<Rightarrow> view \<Rightarrow> view" where
  "dispatch ev v = v\<lparr>dispatched := dispatched v @ [ev]\<rparr>"

definition term_call :: "engine_call \<Rightarrow> terminal \<Rightarrow> terminal" where
  "term_call c t = t\<lparr>calls := calls t @ [c]\<rparr>"

subsection \<open>\<open>write\<close>, the reactive resize and \<open>onMount\<close>\<close>

text \<open>The function bound to the prop \<open>write\<close>.\<close>

definition write_fn :: "js_string \<Rightarrow> view \<Rightarrow> view" where
  "write_fn data v =
     (case term_obj v of
        None \<Rightarrow> v\<lparr>preloadBuffer := preloadBuffer v @ [data]\<rparr>
      | Some t \<Rightarrow> v\<lparr>term_obj := Some (term_call (WriteCall data) t)\<rparr>)"

text \<open>The statement \<open>$: term?.resize(cols, rows)\<close>.\<close>

definition reactive_resize :: "view \<Rightarrow> view" where
  "reactive_resize v =
     (case term_obj v of
        None \<Rightarrow> v
      | Some t \<Rightarrow> v\<lparr>term_obj := Some (term_call (Resize (cols v) (rows v)) t)\<rparr>)"

text \<open>
  The owner sets the props \<open>rows\<close> and \<open>cols\<close>. Svelte runs a reactive statement again
  when a variable it reads has changed, so setting both to the values they have runs
  nothing.
\<close>

definition set_props :: "int \<Rightarrow> int \<Rightarrow> view \<Rightarrow> view" where
  "set_props r c v =
     (if r = rows v \<and> c = cols v then v
      else reactive_resize (v\<lparr>rows := r, cols := c\<rparr>))"

text \<open>The loop \<open>for (const data of preloadBuffer) term.write(data)\<close>.\<close>

fun replay :: "js_string list \<Rightarrow> terminal \<Rightarrow> terminal" where
  "replay [] t = t"
| "replay (data # rest) t = replay rest (term_call (WriteCall data) t)"

text \<open>
  The callback of \<open>onMount\<close> from \<open>term = new Terminal(...)\<close> to its end: no \<open>await\<close>
  stands between these statements, so they run as one step. An exception of \<open>patchXTerm\<close>
  ends the callback there, with \<open>term\<close> already assigned.
\<close>

definition onMount :: "world \<Rightarrow> view \<Rightarrow> js_error option \<times> world \<times> view" where
  "onMount w v =
     (let t0 = new_Terminal;
          v0 = v\<lparr>term_obj := Some t0\<rparr>
      in case patchXTerm t0 w of
           (Inl e, w') \<Rightarrow> (Some e, w', v0)
         | (Inr u, w') \<Rightarrow>
             let t1 = term_call AttachCustomKeyEventHandler t0;
                 t2 = term_call LoadAddon t1;
                 t3 = term_call Open t2;
                 t4 = term_call (Resize (cols v0) (rows v0)) t3;
                 t5 = term_call OnTitleChange t4;
                 v1 = v0\<lparr>loaded := True\<rparr>;
                 t6 = replay (preloadBuffer v1) t5;
                 t7 = term_call OnData t6;
                 t8 = term_call OnBinary t7
             in (None, w', v1\<lparr>term_obj := Some t8\<rparr>))"

text \<open>The chunks an engine was given, in the order of the calls.\<close>

fun written :: "engine_call list \<Rightarrow> js_string list" where
  "written [] = []"
| "written (WriteCall data # cs) = data # written cs"
| "written (c # cs) = written cs"

text \<open>The sizes an engine was given, as (cols, rows), in the order of the calls.\<close>

fun resized :: "engine_call list \<Rightarrow> (int \<times> int) list" where
  "resized [] = []"
| "resized (Resize c r # cs) = (c, r) # resized cs"
| "resized (c # cs) = resized cs"

subsection \<open>Engine notifications\<close>

text \<open>
  \<open>Buffer.from(data, "binary")\<close> of the \<open>buffer\<close> package: one byte for each code unit,
  its low eight bits.
\<close>

definition Buffer_from_binary :: "js_string \<Rightarrow> 8 word list" where
  "Buffer_from_binary data = map ucast data"

text \<open>The binary string of a byte sequence: one code unit for each byte, of its value.\<close>

definition binary_string :: "8 word list \<Rightarrow> js_string" where
  "binary_string bytes = map ucast bytes"

definition onBinary_cb :: "js_string \<Rightarrow> view \<Rightarrow> view" where
  "onBinary_cb data v = dispatch (Data (Buffer_from_binary data)) v"

definition onTitleChange_cb :: "js_string \<Rightarrow> view \<Rightarrow> view" where
  "onTitleChange_cb title v = v\<lparr>currentTitle := title\<rparr>"

text \<open>An engine notifies a callback once it has been registered.\<close>

definition registered :: "engine_call \<Rightarrow> view \<Rightarrow> bool" where
  "registered c v =
     (case term_obj v of
        None \<Rightarrow> False
      | Some t \<Rightarrow> c \<in> set (calls t))"

subsection \<open>Mouse handling\<close>

text \<open>The elements of the markup, outermost first in the source.\<close>

datatype element =
    TermContainer
  | HeaderBar
  | ControlsCell
  | ControlsRow
  | CloseButton
  | MinimizeButton
  | MaximizeButton
  | TitleCell
  | SpacerCell
  | TermEl

record mouse_event =
  pageX :: int
  pageY :: int
  button :: nat
  target :: element

definition handleDrag :: "mouse_event \<Rightarrow> bool \<Rightarrow> view \<Rightarrow> view" where
  "handleDrag event start v =
     (if start then v\<lparr>dragging := True, prevMouseX := pageX event, prevMouseY := pageY event\<rparr>
      else if dragging v
        then dispatch (Moving (pageX event - prevMouseX v) (pageY event - prevMouseY v)) v
      else v)"

definition handleDragEnd :: "mouse_event \<Rightarrow> view \<Rightarrow> view" where
  "handleDragEnd event v =
     (if \<not> dragging v then v
      else (dispatch (Move (pageX event - prevMouseX v) (pageY event - prevMouseY v)) v)
             \<lparr>dragging := False\<rparr>)"

text \<open>The path of a bubbling event, from its target to the root of the component.\<close>

fun propagation_path :: "element \<Rightarrow> element list" where
  "propagation_path TermContainer = [TermContainer]"
| "propagation_path HeaderBar = [HeaderBar, TermContainer]"
| "propagation_path ControlsCell = [ControlsCell, HeaderBar, TermContainer]"
| "propagation_path ControlsRow = [ControlsRow, ControlsCell, HeaderBar, TermContainer]"
| "propagation_path CloseButton =
     [CloseButton, ControlsRow, ControlsCell, HeaderBar, TermContainer]"
| "propagation_path MinimizeButton =
     [MinimizeButton, ControlsRow, ControlsCell, HeaderBar, TermContainer]"
| "propagation_path MaximizeButton =
     [MaximizeButton, ControlsRow, ControlsCell, HeaderBar, TermContainer]"
| "propagation_path TitleCell = [TitleCell, HeaderBar, TermContainer]"
| "propagation_path SpacerCell = [SpacerCell, HeaderBar, TermContainer]"
| "propagation_path TermEl = [TermEl, TermContainer]"

text \<open>
  The \<open>mousedown\<close> listener of an element: the view afterwards, and whether the listener
  stops the propagation (\<open>on:mousedown|stopPropagation\<close>). No listener checks the button.
\<close>

fun on_mousedown :: "element \<Rightarrow> mouse_event \<Rightarrow> view \<Rightarrow> view \<times> bool" where
  "on_mousedown TermContainer event v = (dispatch Focus v, False)"
| "on_mousedown HeaderBar event v = (handleDrag event True v, False)"
| "on_mousedown CloseButton event v = (v, True)"
| "on_mousedown MinimizeButton event v = (v, True)"
| "on_mousedown MaximizeButton event v = (v, True)"
| "on_mousedown el event v = (v, False)"

fun bubble :: "element list \<Rightarrow> mouse_event \<Rightarrow> view \<Rightarrow> view" where
  "bubble [] event v = v"
| "bubble (el # els) event v =
     (case on_mousedown el event v of
        (v', stopped) \<Rightarrow> if stopped then v' else bubble els event v')"

definition mousedown :: "mouse_event \<Rightarrow> view \<Rightarrow> view" where
  "mousedown event v = bubble (propagation_path (target event)) event v"

text \<open>Only the close button listens to \<open>click\<close>.\<close>

definition click :: "mouse_event \<Rightarrow> view \<Rightarrow> view" where
  "click event v =
     (if CloseButton \<in> set (propagation_path (target event)) then dispatch Close v else v)"

subsection \<open>Runs of a view\<close>

text \<open>
  What can happen to a mounted component, one event loop task each. \<open>Mount\<close> is the end of
  the \<open>onMount\<close> callback, followed by the reactive statement, which Svelte runs again
  because \<open>term\<close> was assigned; Svelte calls the callback once for a component. The
  listeners on \<open>window\<close> call \<open>handleDrag\<close> with the event alone, so \<open>start\<close> is \<open>false\<close>.
\<close>

datatype view_event =
    Write js_string
  | SetProps int int
  | Mount
  | MouseDown mouse_event
  | MouseMove mouse_event
  | MouseUp mouse_event
  | MouseLeave mouse_event
  | Click mouse_event
  | EngineBinary js_string
  | EngineTitle js_string

fun view_step :: "view_event \<Rightarrow> world \<times> view \<Rightarrow> world \<times> view" where
  "view_step (Write data) (w, v) = (w, write_fn data v)"
| "view_step (SetProps r c) (w, v) = (w, set_props r c v)"
| "view_step Mount (w, v) =
     (case onMount w v of (e, w', v') \<Rightarrow> (w', reactive_resize v'))"
| "view_step (MouseDown event) (w, v) = (w, mousedown event v)"
| "view_step (MouseMove event) (w, v) = (w, handleDrag event False v)"
| "view_step (MouseUp event) (w, v) = (w, handleDragEnd event v)"
| "view_step (MouseLeave event) (w, v) = (w, handleDragEnd event v)"
| "view_step (Click event) (w, v) = (w, click event v)"
| "view_step (EngineBinary data) (w, v) =
     (w, if registered OnBinary v then onBinary_cb data v else v)"
| "view_step (EngineTitle title) (w, v) =
     (w, if registered OnTitleChange v then onTitleChange_cb title v else v)"

fun run :: "view_event list \<Rightarrow> world \<times> view \<Rightarrow> world \<times> view" where
  "run [] s = s"
| "run (e # es) s = run es (view_step e s)"

text \<open>The chunks a run passes to \<open>write\<close>, in call order.\<close>

fun chunks :: "view_event list \<Rightarrow> js_string list" where
  "chunks [] = []"
| "chunks (Write data # es) = data # chunks es"
| "chunks (e # es) = chunks es"

text \<open>What the engine of a view has been given so far; nothing when there is no engine.\<close>

definition delivered :: "view \<Rightarrow> js_string list" where
  "delivered v =
     (case term_obj v of
        None \<Rightarrow> []
      | Some t \<Rightarrow> written (calls t))"

subsection \<open>\<open>waitForFonts\<close>\<close>

text \<open>
  The closure holds \<open>state\<close> and \<open>waitlist\<close>. A call of the async function runs until its
  next \<open>await\<close> and is resumed later, when what it awaits has settled; other calls run in
  between. A caller is a number, and \<open>pc\<close> says where its call stands.
\<close>

datatype font_state = Initial | Loading | Loaded

datatype caller_pc =
    NotCalled
  | AwaitingImport
  | AwaitingLoad
  | AwaitingResolve
  | Returned
  | Rejected

text \<open>
  \<open>loads_started\<close> counts the calls of \<open>new FontFaceObserver("Fira Code VF").load()\<close> and
  \<open>warnings\<close> those of \<open>console.warn\<close>; an entry of \<open>waitlist\<close> is the \<open>resolve\<close> function of
  the caller it names.
\<close>

record gate =
  state :: font_state
  waitlist :: "nat list"
  pc :: "nat \<Rightarrow> caller_pc"
  loads_started :: nat
  warnings :: nat

definition new_gate :: gate where
  "new_gate =
     \<lparr>state = Initial, waitlist = [], pc = (\<lambda>i. NotCalled), loads_started = 0, warnings = 0\<rparr>"

definition set_pc :: "nat \<Rightarrow> caller_pc \<Rightarrow> gate \<Rightarrow> gate" where
  "set_pc i p g = g\<lparr>pc := (pc g)(i := p)\<rparr>"

text \<open>
  The call, up to its first \<open>await\<close> or its return. In the last branch the executor of the
  promise runs at once.
\<close>

definition waitForFonts :: "nat \<Rightarrow> gate \<Rightarrow> gate" where
  "waitForFonts i g =
     (if state g = Loaded then set_pc i Returned g
      else if state g = Initial then set_pc i AwaitingImport g
      else (if state g = Loaded then set_pc i Returned g
            else set_pc i AwaitingResolve (g\<lparr>waitlist := waitlist g @ [i]\<rparr>)))"

text \<open>The call resumes after \<open>await import("fontfaceobserver")\<close> and starts the load.\<close>

definition import_resolved :: "nat \<Rightarrow> gate \<Rightarrow> gate" where
  "import_resolved i g =
     set_pc i AwaitingLoad (g\<lparr>state := Loading, loads_started := Suc (loads_started g)\<rparr>)"

text \<open>Resolving a promise that is already resolved does nothing.\<close>

definition resolve :: "nat \<Rightarrow> gate \<Rightarrow> gate" where
  "resolve j g = (if pc g j = AwaitingResolve then set_pc j Returned g else g)"

fun resolve_all :: "nat list \<Rightarrow> gate \<Rightarrow> gate" where
  "resolve_all [] g = g"
| "resolve_all (j # js) g = resolve_all js (resolve j g)"

text \<open>The call resumes after the load has settled; \<open>ok\<close> is false when it failed.\<close>

definition load_settled :: "nat \<Rightarrow> bool \<Rightarrow> gate \<Rightarrow> gate" where
  "load_settled i ok g =
     (let g1 = (if ok then g else g\<lparr>warnings := Suc (warnings g)\<rparr>);
          g2 = g1\<lparr>state := Loaded\<rparr>;
          g3 = resolve_all (waitlist g2) g2
      in set_pc i Returned g3)"

text \<open>
  A schedule is a sequence of these events; an event that cannot happen in a state
  (a caller resumed where it does not wait) has no successor.
\<close>

datatype gate_event =
    Call nat
  | ImportResolved nat
  | ImportRejected nat
  | LoadSettled nat bool

fun gate_step :: "gate_event \<Rightarrow> gate \<Rightarrow> gate option" where
  "gate_step (Call i) g =
     (if pc g i = NotCalled then Some (waitForFonts i g) else None)"
| "gate_step (ImportResolved i) g =
     (if pc g i = AwaitingImport then Some (import_resolved i g) else None)"
| "gate_step (ImportRejected i) g =
     (if pc g i = AwaitingImport then Some (set_pc i Rejected g) else None)"
| "gate_step (LoadSettled i ok) g =
     (if pc g i = AwaitingLoad then Some (load_settled i ok g) else None)"

fun gate_run :: "gate_event list \<Rightarrow> gate \<Rightarrow> gate option" where
  "gate_run [] g = Some g"
| "gate_run (e # es) g =
     (case gate_step e g of
        None \<Rightarrow> None
      | Some g' \<Rightarrow> gate_run es g')"

text \<open>The calls the engine of a view has received so far.\<close>

definition engine_calls :: "view \<Rightarrow> engine_call list" where
  "engine_calls v =
     (case term_obj v of
        None \<Rightarrow> []
      | Some t \<Rightarrow> calls t)"

text \<open>The engine that \<open>onMount\<close> leaves in \<open>term\<close>, for a view with the given size and buffer.\<close>

definition mounted_engine :: "int \<Rightarrow> int \<Rightarrow> js_string list \<Rightarrow> terminal" where
  "mounted_engine c r ds =
     new_Terminal\<lparr>calls :=
       [AttachCustomKeyEventHandler, LoadAddon, Open, Resize c r, OnTitleChange]
       @ map WriteCall ds @ [OnData, OnBinary]\<rparr>"

section \<open>Properties\<close>

subsection \<open>The prototype patch\<close>

lemma patchXTerm_installs:
  assumes "\<not> patched w" and "core t = Some c" and "inputHandler c = Some ih"
  shows "fst (patchXTerm t w) = Inr ()"
    and "prototypes (snd (patchXTerm t w)) (constructor c) ''_handleColorEvent'' = Some noop"
    and "prototypes (snd (patchXTerm t w)) (constructor c) ''_reportFocus'' = Some noop"
    and "prototypes (snd (patchXTerm t w)) (ih_constructor ih) ''unhook'' = Some unhook_patch"
    and "prototypes (snd (patchXTerm t w)) (ih_constructor ih) ''sendDeviceAttributesPrimary''
           = Some noop"
    and "prototypes (snd (patchXTerm t w)) (ih_constructor ih) ''sendDeviceAttributesSecondary''
           = Some noop"
    and "prototypes (snd (patchXTerm t w)) (ih_constructor ih) ''deviceStatus'' = Some noop"
    and "prototypes (snd (patchXTerm t w)) (ih_constructor ih) ''deviceStatusPrivate''
           = Some noop"
    and "prototypes (snd (patchXTerm t w)) (ih_constructor ih) ''windowOptions'' =
           Some (windowOptions_patch (prototypes w (ih_constructor ih) ''windowOptions''))"
  using assms by (simp_all add: patchXTerm_def set_method_def Let_def)

lemma patchXTerm_sets_flag: "patched (snd (patchXTerm t w))"
  by (simp add: patchXTerm_def set_method_def Let_def split: option.splits)

lemma patchXTerm_when_patched: "patched w \<Longrightarrow> patchXTerm t w = (Inr (), w)"
  by (simp add: patchXTerm_def)

lemma patchXTerm_new_Terminal: "fst (patchXTerm new_Terminal w) = Inr ()"
  by (simp add: patchXTerm_def new_Terminal_def Let_def)

lemma windowOptions_patch_IParams:
  "windowOptions_patch orig (IParams (x # ps)) this =
     (if x = 18 then Inr \<lparr>returned = Boolean True, replies = [], receiver = this\<rparr>
      else case orig of None \<Rightarrow> Inl TypeError | Some h \<Rightarrow> h (IParams (x # ps)) this)"
  by (simp add: windowOptions_patch_def)

lemma windowOptions_patch_no_params:
  "windowOptions_patch orig (IParams []) this =
     (case orig of None \<Rightarrow> Inl TypeError | Some h \<Rightarrow> h (IParams []) this)"
  by (simp add: windowOptions_patch_def)

text \<open>
  What the patch does on the two classes it reaches. The handlers of color events, focus
  reports, device attributes and device status return \<open>undefined\<close>, send no reply and leave
  the receiver as it was; the \<open>unhook\<close> property of the input handler class sends no reply
  either (it empties \<open>_data\<close> and returns true). The window options handler returns true
  without a reply when the first parameter is 18, and otherwise does what the handler found
  on the prototype before the patch does with the same argument and receiver.
\<close>

lemma patch_silences_queries:
  assumes "\<not> patched w" and "core t = Some c" and "inputHandler c = Some ih"
  shows "let w' = snd (patchXTerm t w);
             Terminal = constructor c;
             InputHandler = ih_constructor ih;
             silent = Inr \<lparr>returned = Undefined, replies = [], receiver = this\<rparr>
         in invoke w' Terminal ''_handleColorEvent'' arg this = silent
          \<and> invoke w' Terminal ''_reportFocus'' arg this = silent
          \<and> invoke w' InputHandler ''sendDeviceAttributesPrimary'' arg this = silent
          \<and> invoke w' InputHandler ''sendDeviceAttributesSecondary'' arg this = silent
          \<and> invoke w' InputHandler ''deviceStatus'' arg this = silent
          \<and> invoke w' InputHandler ''deviceStatusPrivate'' arg this = silent
          \<and> invoke w' InputHandler ''unhook'' arg this =
                Inr \<lparr>returned = Boolean True, replies = [],
                     receiver = this(''_data'' \<mapsto> Uint32Array [])\<rparr>
          \<and> invoke w' InputHandler ''windowOptions'' (IParams (x # ps)) this =
                (if x = 18 then Inr \<lparr>returned = Boolean True, replies = [], receiver = this\<rparr>
                 else invoke w InputHandler ''windowOptions'' (IParams (x # ps)) this)
          \<and> invoke w' InputHandler ''windowOptions'' (IParams []) this =
                invoke w InputHandler ''windowOptions'' (IParams []) this"
  using patchXTerm_installs [OF assms]
  by (simp add: invoke_def noop_def unhook_patch_def windowOptions_patch_IParams
      windowOptions_patch_no_params)

lemma patch_silences_queries_example:
  "\<not> patched replying_world
   \<and> core new_Terminal =
       Some \<lparr>constructor = Terminal_class,
             inputHandler = Some \<lparr>ih_constructor = InputHandler_class\<rparr>\<rparr>
   \<and> invoke replying_world InputHandler_class ''deviceStatus'' (IParams [5]) Map.empty =
       Inr \<lparr>returned = Boolean True, replies = [[0x1B, 0x5B, 0x30, 0x6E]],
            receiver = Map.empty\<rparr>
   \<and> invoke (snd (patchXTerm new_Terminal replying_world)) InputHandler_class
         ''deviceStatus'' (IParams [5]) Map.empty =
       Inr \<lparr>returned = Undefined, replies = [], receiver = Map.empty\<rparr>
   \<and> invoke (snd (patchXTerm new_Terminal replying_world)) InputHandler_class
         ''windowOptions'' (IParams [18]) Map.empty =
       Inr \<lparr>returned = Boolean True, replies = [], receiver = Map.empty\<rparr>
   \<and> invoke (snd (patchXTerm new_Terminal replying_world)) InputHandler_class
         ''windowOptions'' (IParams [14]) Map.empty =
       Inr \<lparr>returned = Boolean True, replies = [[0x1B, 0x5B, 0x38, 0x74]],
            receiver = Map.empty\<rparr>"
  using patch_silences_queries [of replying_world new_Terminal
      "\<lparr>constructor = Terminal_class,
        inputHandler = Some \<lparr>ih_constructor = InputHandler_class\<rparr>\<rparr>"
      "\<lparr>ih_constructor = InputHandler_class\<rparr>" Map.empty "IParams [5]" 14 "[]"]
    patch_silences_queries [of replying_world new_Terminal
      "\<lparr>constructor = Terminal_class,
        inputHandler = Some \<lparr>ih_constructor = InputHandler_class\<rparr>\<rparr>"
      "\<lparr>ih_constructor = InputHandler_class\<rparr>" Map.empty "IParams [5]" 18 "[]"]
  by (simp add: replying_world_def new_Terminal_def invoke_def reply_with_def
      InputHandler_class_def Terminal_class_def Let_def)

text \<open>The patch assigns to the prototypes of two classes and to no other.\<close>

lemma patchXTerm_other_classes:
  assumes "core t = Some c" and "inputHandler c = Some ih"
    and "k \<noteq> constructor c" and "k \<noteq> ih_constructor ih"
  shows "prototypes (snd (patchXTerm t w)) k = prototypes w k"
  using assms by (simp add: patchXTerm_def set_method_def Let_def)

text \<open>
  C2 fails on the code for \<open>unhook\<close>. The suppression patch is to replace the \<open>unhook\<close>
  handler by one that emits no response. It assigns its replacement to the prototype of
  the input handler class, but the body it assigns resets \<open>_data\<close>, the field of the DCS
  handler, and in the engine the \<open>unhook\<close> that answers is the method of that handler's
  class. The patch does not reach this class: after it the input handler class has the
  reply-free property, and a status string request is answered exactly as before.
\<close>

theorem patch_misses_unhook_of_dcs_handler:
  "prototypes (snd (patchXTerm new_Terminal replying_world)) InputHandler_class ''unhook'' =
     Some unhook_patch
   \<and> invoke replying_world DECRQSS_class ''unhook'' (Boolean True) Map.empty =
       Inr \<lparr>returned = Boolean True,
            replies = [[0x1B, 0x50, 0x30, 0x24, 0x72, 0x1B, 0x5C]], receiver = Map.empty\<rparr>
   \<and> invoke (snd (patchXTerm new_Terminal replying_world)) DECRQSS_class ''unhook''
         (Boolean True) Map.empty =
       Inr \<lparr>returned = Boolean True,
            replies = [[0x1B, 0x50, 0x30, 0x24, 0x72, 0x1B, 0x5C]], receiver = Map.empty\<rparr>"
proof -
  have fresh: "\<not> patched replying_world"
    by (simp add: replying_world_def)
  have c: "core new_Terminal =
      Some \<lparr>constructor = Terminal_class,
            inputHandler = Some \<lparr>ih_constructor = InputHandler_class\<rparr>\<rparr>"
    by (simp add: new_Terminal_def)
  have ih: "inputHandler \<lparr>constructor = Terminal_class,
      inputHandler = Some \<lparr>ih_constructor = InputHandler_class\<rparr>\<rparr> =
      Some \<lparr>ih_constructor = InputHandler_class\<rparr>"
    by simp
  have installed: "prototypes (snd (patchXTerm new_Terminal replying_world))
      InputHandler_class ''unhook'' = Some unhook_patch"
    using patchXTerm_installs(4) [OF fresh c ih] by simp
  have untouched: "prototypes (snd (patchXTerm new_Terminal replying_world)) DECRQSS_class =
      prototypes replying_world DECRQSS_class"
    using patchXTerm_other_classes [OF c ih, of DECRQSS_class replying_world]
    by (simp add: DECRQSS_class_def Terminal_class_def InputHandler_class_def)
  have before: "invoke replying_world DECRQSS_class ''unhook'' (Boolean True) Map.empty =
      Inr \<lparr>returned = Boolean True,
           replies = [[0x1B, 0x50, 0x30, 0x24, 0x72, 0x1B, 0x5C]], receiver = Map.empty\<rparr>"
    by (simp add: invoke_def replying_world_def reply_with_def DECRQSS_class_def
        InputHandler_class_def)
  have after: "invoke (snd (patchXTerm new_Terminal replying_world)) DECRQSS_class ''unhook''
      (Boolean True) Map.empty =
      invoke replying_world DECRQSS_class ''unhook'' (Boolean True) Map.empty"
    using untouched by (simp add: invoke_def)
  show ?thesis
    using installed before after by simp
qed

text \<open>
  C5, as the code behaves. The patch never looks at what the prototypes hold. Applied for
  the first time to an instance that has its \<open>_core\<close> and \<open>_inputHandler\<close>, it returns
  without an error whatever handlers the classes have or lack, and afterwards every
  replacement is on its prototype. A window options handler that was missing shows only
  when the replacement delegates to it: a call with a first parameter other than 18 then
  throws a TypeError.
\<close>

theorem patch_succeeds_without_handlers:
  assumes "\<not> patched w" and "core t = Some c" and "inputHandler c = Some ih"
  shows "let w0 = w\<lparr>prototypes := P\<rparr>;
             w' = snd (patchXTerm t w0);
             Terminal = constructor c;
             InputHandler = ih_constructor ih
         in fst (patchXTerm t w0) = Inr ()
          \<and> prototypes w' Terminal ''_handleColorEvent'' = Some noop
          \<and> prototypes w' Terminal ''_reportFocus'' = Some noop
          \<and> prototypes w' InputHandler ''unhook'' = Some unhook_patch
          \<and> prototypes w' InputHandler ''sendDeviceAttributesPrimary'' = Some noop
          \<and> prototypes w' InputHandler ''sendDeviceAttributesSecondary'' = Some noop
          \<and> prototypes w' InputHandler ''deviceStatus'' = Some noop
          \<and> prototypes w' InputHandler ''deviceStatusPrivate'' = Some noop
          \<and> invoke w' InputHandler ''windowOptions'' (IParams (x # ps)) this =
                (if x = 18 then Inr \<lparr>returned = Boolean True, replies = [], receiver = this\<rparr>
                 else case P InputHandler ''windowOptions'' of
                        None \<Rightarrow> Inl TypeError
                      | Some h \<Rightarrow> h (IParams (x # ps)) this)"
proof -
  have fresh: "\<not> patched (w\<lparr>prototypes := P\<rparr>)"
    using assms(1) by simp
  show ?thesis
    using patchXTerm_installs [OF fresh assms(2) assms(3)]
    by (simp add: invoke_def windowOptions_patch_IParams)
qed

theorem patch_succeeds_without_handlers_witness:
  "\<not> patched bare_world
   \<and> core new_Terminal =
       Some \<lparr>constructor = Terminal_class,
             inputHandler = Some \<lparr>ih_constructor = InputHandler_class\<rparr>\<rparr>
   \<and> fst (patchXTerm new_Terminal bare_world) = Inr ()
   \<and> prototypes (snd (patchXTerm new_Terminal bare_world)) InputHandler_class
         ''deviceStatus'' = Some noop
   \<and> invoke (snd (patchXTerm new_Terminal bare_world)) InputHandler_class
         ''windowOptions'' (IParams [14]) Map.empty = Inl TypeError"
  using patch_succeeds_without_handlers [of bare_world new_Terminal
      "\<lparr>constructor = Terminal_class,
        inputHandler = Some \<lparr>ih_constructor = InputHandler_class\<rparr>\<rparr>"
      "\<lparr>ih_constructor = InputHandler_class\<rparr>" "\<lambda>c. Map.empty" 14 "[]" Map.empty]
  by (simp add: bare_world_def new_Terminal_def Let_def)

text \<open>
  C5, as the specification states it, fails: the classes of \<open>bare_world\<close> have none of the named
  handlers, and the patch returns normally.
\<close>

theorem patch_missing_handlers_counterexample:
  "prototypes bare_world InputHandler_class ''deviceStatus'' = None
   \<and> prototypes bare_world InputHandler_class ''sendDeviceAttributesPrimary'' = None
   \<and> prototypes bare_world InputHandler_class ''windowOptions'' = None
   \<and> prototypes bare_world InputHandler_class ''unhook'' = None
   \<and> fst (patchXTerm new_Terminal bare_world) = Inr ()"
  by (simp add: bare_world_def patchXTerm_def new_Terminal_def Let_def)

text \<open>
  C8. The flag decides alone: in every world where \<open>patched\<close> is set, whatever its
  prototypes hold, an application to any instance returns without an error and assigns
  nothing, and every application leaves the flag set. So a second application, to the same
  instance or to another, leaves every prototype as the first application left it. The
  handlers that an instance of the same classes finds are the replacements of the first
  application, and the window options replacement wraps the handler of the unpatched
  engine.
\<close>

theorem patch_twice_is_patch_once:
  assumes "\<not> patched w" and "core t1 = Some c1" and "inputHandler c1 = Some ih1"
    and "core t2 = Some c2" and "inputHandler c2 = Some ih2"
    and "constructor c2 = constructor c1" and "ih_constructor ih2 = ih_constructor ih1"
  shows "let w1 = snd (patchXTerm t1 w);
             w2 = snd (patchXTerm t2 w1);
             Terminal = constructor c2;
             InputHandler = ih_constructor ih2
         in patchXTerm t (u\<lparr>patched := True\<rparr>) = (Inr (), u\<lparr>patched := True\<rparr>)
          \<and> patched (snd (patchXTerm t u))
          \<and> patchXTerm t (snd (patchXTerm t' u)) = (Inr (), snd (patchXTerm t' u))
          \<and> patchXTerm t2 w1 = (Inr (), w1)
          \<and> patchXTerm t1 w1 = (Inr (), w1)
          \<and> prototypes w2 Terminal ''_handleColorEvent'' = Some noop
          \<and> prototypes w2 Terminal ''_reportFocus'' = Some noop
          \<and> prototypes w2 InputHandler ''unhook'' = Some unhook_patch
          \<and> prototypes w2 InputHandler ''sendDeviceAttributesPrimary'' = Some noop
          \<and> prototypes w2 InputHandler ''sendDeviceAttributesSecondary'' = Some noop
          \<and> prototypes w2 InputHandler ''deviceStatus'' = Some noop
          \<and> prototypes w2 InputHandler ''deviceStatusPrivate'' = Some noop
          \<and> prototypes w2 InputHandler ''windowOptions'' =
                Some (windowOptions_patch (prototypes w InputHandler ''windowOptions''))"
proof -
  have flagged: "patchXTerm t (u\<lparr>patched := True\<rparr>) = (Inr (), u\<lparr>patched := True\<rparr>)"
    by (rule patchXTerm_when_patched) simp
  have again: "patchXTerm t (snd (patchXTerm t' u)) = (Inr (), snd (patchXTerm t' u))"
    for t t' u
    by (rule patchXTerm_when_patched) (rule patchXTerm_sets_flag)
  show ?thesis
    using patchXTerm_installs [OF assms(1) assms(2) assms(3)] assms(6) assms(7) flagged
    by (simp add: again patchXTerm_sets_flag)
qed

theorem patch_twice_is_patch_once_witness:
  "\<not> patched replying_world
   \<and> core new_Terminal =
       Some \<lparr>constructor = Terminal_class,
             inputHandler = Some \<lparr>ih_constructor = InputHandler_class\<rparr>\<rparr>
   \<and> core (term_call Open new_Terminal) = core new_Terminal
   \<and> patchXTerm new_Terminal (replying_world\<lparr>patched := True\<rparr>) =
       (Inr (), replying_world\<lparr>patched := True\<rparr>)
   \<and> invoke (snd (patchXTerm new_Terminal (replying_world\<lparr>patched := True\<rparr>)))
         InputHandler_class ''deviceStatus'' (IParams [5]) Map.empty =
       Inr \<lparr>returned = Boolean True, replies = [[0x1B, 0x5B, 0x30, 0x6E]],
            receiver = Map.empty\<rparr>
   \<and> patchXTerm (term_call Open new_Terminal) (snd (patchXTerm new_Terminal replying_world)) =
       (Inr (), snd (patchXTerm new_Terminal replying_world))
   \<and> prototypes
        (snd (patchXTerm (term_call Open new_Terminal)
           (snd (patchXTerm new_Terminal replying_world))))
        InputHandler_class ''windowOptions'' =
       Some (windowOptions_patch (Some (reply_with [0x1B, 0x5B, 0x38, 0x74])))"
proof -
  have fresh: "\<not> patched replying_world"
    by (simp add: replying_world_def)
  have c1: "core new_Terminal =
      Some \<lparr>constructor = Terminal_class,
            inputHandler = Some \<lparr>ih_constructor = InputHandler_class\<rparr>\<rparr>"
    by (simp add: new_Terminal_def)
  have c2: "core (term_call Open new_Terminal) = core new_Terminal"
    by (simp add: term_call_def)
  have ih: "inputHandler \<lparr>constructor = Terminal_class,
      inputHandler = Some \<lparr>ih_constructor = InputHandler_class\<rparr>\<rparr> =
      Some \<lparr>ih_constructor = InputHandler_class\<rparr>"
    by simp
  have orig: "prototypes replying_world InputHandler_class ''windowOptions'' =
      Some (reply_with [0x1B, 0x5B, 0x38, 0x74])"
    by (simp add: replying_world_def)
  have status: "invoke (replying_world\<lparr>patched := True\<rparr>)
      InputHandler_class ''deviceStatus'' (IParams [5]) Map.empty =
      Inr \<lparr>returned = Boolean True, replies = [[0x1B, 0x5B, 0x30, 0x6E]],
           receiver = Map.empty\<rparr>"
    by (simp add: invoke_def replying_world_def reply_with_def)
  show ?thesis
    using patch_twice_is_patch_once [OF fresh c1 ih c2 [unfolded c1] ih refl refl,
        of new_Terminal replying_world new_Terminal]
      fresh c1 c2 orig status
    by (auto simp add: Let_def)
qed

subsection \<open>The preload buffer\<close>

lemma run_append: "run (es1 @ es2) s = run es2 (run es1 s)"
  by (induction es1 arbitrary: s) simp_all

lemma chunks_append: "chunks (es1 @ es2) = chunks es1 @ chunks es2"
  by (induction es1 rule: chunks.induct) simp_all

lemma chunks_Write: "chunks (map Write ds) = ds"
  by (induction ds) simp_all

lemma written_append: "written (cs1 @ cs2) = written cs1 @ written cs2"
  by (induction cs1 rule: written.induct) simp_all

lemma resized_append: "resized (cs1 @ cs2) = resized cs1 @ resized cs2"
  by (induction cs1 rule: resized.induct) simp_all

lemma replay_eq: "replay ds t = t\<lparr>calls := calls t @ map WriteCall ds\<rparr>"
  by (induction ds arbitrary: t) (simp_all add: term_call_def)

lemma written_WriteCall: "written (map WriteCall ds) = ds"
  by (induction ds) simp_all

lemma resized_WriteCall: "resized (map WriteCall ds) = []"
  by (induction ds) simp_all

lemma onMount_eq:
  "onMount w v =
     (None, snd (patchXTerm new_Terminal w),
      v\<lparr>term_obj := Some (mounted_engine (cols v) (rows v) (preloadBuffer v)),
        loaded := True\<rparr>)"
proof (cases "patchXTerm new_Terminal w")
  case (Pair res w')
  with patchXTerm_new_Terminal [of w] have "res = Inr ()"
    by simp
  have "term_call OnBinary (term_call OnData (replay (preloadBuffer v)
          (term_call OnTitleChange (term_call (Resize (cols v) (rows v))
            (term_call Open (term_call LoadAddon
              (term_call AttachCustomKeyEventHandler new_Terminal)))))))
        = mounted_engine (cols v) (rows v) (preloadBuffer v)"
    by (simp add: mounted_engine_def term_call_def replay_eq new_Terminal_def)
  with Pair \<open>res = Inr ()\<close> show ?thesis
    by (simp add: onMount_def Let_def)
qed

lemma mousedown_frame:
  "term_obj (mousedown event v) = term_obj v"
  "preloadBuffer (mousedown event v) = preloadBuffer v"
  by (cases "target event"; simp add: mousedown_def handleDrag_def dispatch_def)+

lemma step_before_mount:
  assumes "e \<noteq> Mount" and "term_obj (snd s) = None"
  shows "term_obj (snd (view_step e s)) = None"
    and "preloadBuffer (snd (view_step e s)) = preloadBuffer (snd s) @ chunks [e]"
  using assms
  by (cases s; cases e;
      simp add: write_fn_def set_props_def reactive_resize_def mousedown_frame
        handleDrag_def handleDragEnd_def click_def dispatch_def registered_def)+

lemma step_after_mount:
  assumes "e \<noteq> Mount" and "term_obj (snd s) \<noteq> None"
  shows "term_obj (snd (view_step e s)) \<noteq> None"
    and "delivered (snd (view_step e s)) = delivered (snd s) @ chunks [e]"
    and "preloadBuffer (snd (view_step e s)) = preloadBuffer (snd s)"
  using assms
  by (cases s; cases e;
      auto simp add: write_fn_def set_props_def reactive_resize_def mousedown_frame
        handleDrag_def handleDragEnd_def click_def dispatch_def onBinary_cb_def
        onTitleChange_cb_def delivered_def term_call_def written_append)+

lemma run_before_mount:
  "Mount \<notin> set es \<Longrightarrow> term_obj (snd s) = None \<Longrightarrow>
     term_obj (snd (run es s)) = None
     \<and> preloadBuffer (snd (run es s)) = preloadBuffer (snd s) @ chunks es"
proof (induction es arbitrary: s)
  case Nil
  then show ?case by simp
next
  case (Cons e es)
  from Cons.prems have e: "e \<noteq> Mount" and es: "Mount \<notin> set es"
    by auto
  note one = step_before_mount [OF e Cons.prems(2)]
  have "chunks (e # es) = chunks [e] @ chunks es"
    using chunks_append [of "[e]" es] by simp
  with Cons.IH [OF es one(1)] one(2) show ?case
    by simp
qed

lemma run_after_mount:
  "Mount \<notin> set es \<Longrightarrow> term_obj (snd s) \<noteq> None \<Longrightarrow>
     term_obj (snd (run es s)) \<noteq> None
     \<and> delivered (snd (run es s)) = delivered (snd s) @ chunks es
     \<and> preloadBuffer (snd (run es s)) = preloadBuffer (snd s)"
proof (induction es arbitrary: s)
  case Nil
  then show ?case by simp
next
  case (Cons e es)
  from Cons.prems have e: "e \<noteq> Mount" and es: "Mount \<notin> set es"
    by auto
  note one = step_after_mount [OF e Cons.prems(2)]
  have "chunks (e # es) = chunks [e] @ chunks es"
    using chunks_append [of "[e]" es] by simp
  with Cons.IH [OF es one(1)] one(2) one(3) show ?case
    by simp
qed

lemma step_Mount:
  "term_obj (snd (view_step Mount s)) \<noteq> None"
  "delivered (snd (view_step Mount s)) = preloadBuffer (snd s)"
  "preloadBuffer (snd (view_step Mount s)) = preloadBuffer (snd s)"
  by (cases s; simp add: onMount_eq reactive_resize_def delivered_def mounted_engine_def
      term_call_def written_append written_WriteCall)+

text \<open>
  C1. Whatever happens to a view before and after its engine is constructed, the engine
  has been given exactly the chunks passed to \<open>write\<close>, each once and in call order.
  Before the construction there is no engine and the chunks stand in the preload buffer,
  in call order.
\<close>

theorem write_delivers_in_order:
  assumes "Mount \<notin> set es1" and "Mount \<notin> set es2"
  shows "term_obj (snd (run es1 (w, new_view r c))) = None
       \<and> preloadBuffer (snd (run es1 (w, new_view r c))) = chunks es1
       \<and> delivered (snd (run (es1 @ [Mount]) (w, new_view r c))) = chunks es1
       \<and> delivered (snd (run (es1 @ [Mount] @ es2) (w, new_view r c))) =
           chunks es1 @ chunks es2"
proof -
  let ?s1 = "run es1 (w, new_view r c)"
  let ?s2 = "view_step Mount ?s1"
  have start: "term_obj (snd (w, new_view r c)) = None"
    by (simp add: new_view_def)
  have before: "term_obj (snd ?s1) = None" "preloadBuffer (snd ?s1) = chunks es1"
    using run_before_mount [OF assms(1) start] by (simp_all add: new_view_def)
  have mounted: "term_obj (snd ?s2) \<noteq> None" "delivered (snd ?s2) = chunks es1"
    using step_Mount [of ?s1] before(2) by simp_all
  have after: "delivered (snd (run es2 ?s2)) = chunks es1 @ chunks es2"
    using run_after_mount [OF assms(2) mounted(1)] mounted(2) by simp
  show ?thesis
    using before mounted(2) after by (simp add: run_append)
qed

theorem write_delivers_in_order_witness:
  "Mount \<notin> set [Write [0x61], SetProps 30 100, Write [0x62]]
   \<and> Mount \<notin> set [Write [0x63], EngineBinary [0xFF], Write [0x64]]
   \<and> delivered (snd (run ([Write [0x61], SetProps 30 100, Write [0x62]] @ [Mount]
         @ [Write [0x63], EngineBinary [0xFF], Write [0x64]])
         (replying_world, new_view 24 80))) =
       [[0x61], [0x62], [0x63], [0x64]]"
proof -
  have a: "Mount \<notin> set [Write [0x61], SetProps 30 100, Write [0x62]]"
    by simp
  have b: "Mount \<notin> set [Write [0x63], EngineBinary [0xFF], Write [0x64]]"
    by simp
  show ?thesis
    using write_delivers_in_order [OF a b, of replying_world 24 80] a b
    by simp
qed

text \<open>
  C4, as the code behaves. The loop at the end of \<open>onMount\<close> gives the engine every queued
  chunk in enqueue order. It does not empty the queue: the buffer keeps its chunks and is
  not read again, since every later call of \<open>write\<close> goes to the engine and leaves the
  buffer alone. So the engine has the queued chunks and then the later ones, each once.
\<close>

theorem flush_replays_queue:
  "delivered (snd (snd (onMount w v))) = preloadBuffer v
   \<and> preloadBuffer (snd (snd (onMount w v))) = preloadBuffer v
   \<and> delivered (snd (run (map Write ds) (snd (onMount w v)))) = preloadBuffer v @ ds
   \<and> preloadBuffer (snd (run (map Write ds) (snd (onMount w v)))) = preloadBuffer v"
proof -
  let ?s = "snd (onMount w v)"
  have engine: "term_obj (snd ?s) \<noteq> None"
    by (simp add: onMount_eq)
  have flushed: "delivered (snd ?s) = preloadBuffer v"
    by (simp add: onMount_eq delivered_def mounted_engine_def written_append
        written_WriteCall)
  have kept: "preloadBuffer (snd ?s) = preloadBuffer v"
    by (simp add: onMount_eq)
  have no_mount: "Mount \<notin> set (map Write ds)"
    by auto
  show ?thesis
    using run_after_mount [OF no_mount engine] flushed kept
    by (simp add: chunks_Write)
qed

text \<open>
  C4, as the specification states it, fails: after the flush of a buffer with one chunk the buffer
  still holds the chunk.
\<close>

theorem flush_keeps_queue_counterexample:
  "preloadBuffer (write_fn [0x61] (new_view 24 80)) = [[0x61]]
   \<and> delivered (snd (snd (onMount replying_world (write_fn [0x61] (new_view 24 80))))) =
       [[0x61]]
   \<and> preloadBuffer (snd (snd (onMount replying_world (write_fn [0x61] (new_view 24 80)))))
       \<noteq> []"
  by (simp add: onMount_eq write_fn_def new_view_def delivered_def mounted_engine_def)

subsection \<open>Resizing\<close>

text \<open>
  C10. While \<open>term\<close> is null the reactive statement changes nothing, and a new size only
  replaces the props: no engine exists that could record it. \<open>onMount\<close> sizes the new
  engine once, with the \<open>cols\<close> and \<open>rows\<close> the view has then, so with the last size set
  before. Once the engine exists, a change of \<open>rows\<close> or \<open>cols\<close> gives the engine one more
  \<open>resize\<close>, with the new size.
\<close>

theorem resize_waits_for_engine:
  "reactive_resize (v\<lparr>term_obj := None\<rparr>) = v\<lparr>term_obj := None\<rparr>
   \<and> set_props r c (v\<lparr>term_obj := None\<rparr>) = v\<lparr>term_obj := None, rows := r, cols := c\<rparr>
   \<and> engine_calls (set_props r c (v\<lparr>term_obj := None\<rparr>)) = []
   \<and> resized (engine_calls (snd (snd (onMount w v)))) = [(cols v, rows v)]
   \<and> take 1 (resized (engine_calls
        (snd (run [SetProps r1 c1, SetProps r2 c2, Mount] (w, new_view r0 c0))))) = [(c2, r2)]
   \<and> engine_calls (set_props r c (v\<lparr>term_obj := Some t\<rparr>)) =
       (if r = rows v \<and> c = cols v then calls t else calls t @ [Resize c r])"
proof -
  have props: "set_props r c (v\<lparr>term_obj := None\<rparr>) = v\<lparr>term_obj := None, rows := r, cols := c\<rparr>"
    by (cases "r = rows v \<and> c = cols v") (auto simp add: set_props_def reactive_resize_def)
  have sized: "resized (engine_calls (snd (snd (onMount w v)))) = [(cols v, rows v)]"
    by (simp add: onMount_eq engine_calls_def mounted_engine_def resized_append
        resized_WriteCall)
  have current: "take 1 (resized (engine_calls
        (snd (run [SetProps r1 c1, SetProps r2 c2, Mount] (w, new_view r0 c0))))) = [(c2, r2)]"
    by (simp add: onMount_eq engine_calls_def mounted_engine_def resized_append
        resized_WriteCall set_props_def reactive_resize_def new_view_def term_call_def)
  show ?thesis
    using props sized current
    by (simp add: reactive_resize_def engine_calls_def set_props_def term_call_def)
qed

subsection \<open>Dragging and focus\<close>




text \<open>
  C7, as the code behaves. A press of any button emits one \<open>focus\<close>, whatever the drag
  state, when its target is the container, the terminal area, or the header outside the
  three control buttons. A press on a control button stops at the button and emits
  nothing. The button of the event changes nothing.
\<close>

theorem press_emits_focus_unless_on_control:
  "dispatched (mousedown event v) =
     (if target event \<in> {CloseButton, MinimizeButton, MaximizeButton} then dispatched v
      else dispatched v @ [Focus])
   \<and> mousedown (event\<lparr>button := b\<rparr>) v = mousedown event v"
  by (cases "target event") (simp_all add: mousedown_def handleDrag_def dispatch_def)

text \<open>
  C7, as the specification states it, fails: a primary press on the close button emits nothing, and
  a press of the secondary button on the terminal area emits \<open>focus\<close>.
\<close>

theorem press_on_close_button_counterexample:
  "dispatched (mousedown \<lparr>pageX = 10, pageY = 10, button = 0, target = CloseButton\<rparr>
      (new_view 24 80)) = []
   \<and> dispatched (mousedown \<lparr>pageX = 10, pageY = 10, button = 2, target = TermEl\<rparr>
      (new_view 24 80)) = [Focus]"
  by (simp add: mousedown_def dispatch_def new_view_def)

subsection \<open>Binary data\<close>

lemma byte_of_code_unit: "ucast (ucast (b :: 8 word) :: 16 word) = b"
  by (simp add: ucast_up_ucast_id is_up)

lemma Buffer_from_binary_string: "Buffer_from_binary (binary_string bytes) = bytes"
  by (simp add: Buffer_from_binary_def binary_string_def byte_of_code_unit comp_def)

text \<open>
  C9. The callback of \<open>onBinary\<close> emits one \<open>data\<close> event whose bytes are the code units of
  the string, one byte each: for the binary string of a byte sequence these are the bytes
  themselves, and the string of 0xFF, 0x00, 0x41 gives exactly these three bytes. A mounted
  view emits this event when its engine notifies binary data.
\<close>

theorem binary_data_is_not_reencoded:
  "dispatched (onBinary_cb data v) = dispatched v @ [Data (map ucast data)]
   \<and> onBinary_cb (binary_string bytes) v = dispatch (Data bytes) v
   \<and> dispatched (onBinary_cb (binary_string bytes) v) = dispatched v @ [Data bytes]
   \<and> dispatched (onBinary_cb [0xFF, 0x00, 0x41] v) = dispatched v @ [Data [0xFF, 0x00, 0x41]]
   \<and> dispatched (snd (run [Mount, EngineBinary (binary_string bytes)] (w, new_view r c))) =
       [Data bytes]"
proof -
  have cb: "onBinary_cb (binary_string bytes) v = dispatch (Data bytes) v"
    by (simp add: onBinary_cb_def Buffer_from_binary_string)
  have three: "Buffer_from_binary [0xFF, 0x00, 0x41] = [0xFF, 0x00, 0x41]"
    by (simp add: Buffer_from_binary_def)
  have mounted: "dispatched (snd (run [Mount, EngineBinary (binary_string bytes)]
      (w, new_view r c))) = [Data bytes]"
    by (simp add: onMount_eq reactive_resize_def registered_def mounted_engine_def
        term_call_def onBinary_cb_def Buffer_from_binary_string dispatch_def new_view_def)
  show ?thesis
    using cb three mounted
    by (simp add: onBinary_cb_def dispatch_def Buffer_from_binary_def)
qed

subsection \<open>The font gate\<close>

text \<open>
  What the gate does get right: a caller that arrives while \<open>state\<close> is \<open>loading\<close> starts
  no load and waits on the waitlist, and the settling of a load resumes it.
\<close>

lemma arrival_while_loading:
  "state g = Loading \<Longrightarrow>
     loads_started (waitForFonts i g) = loads_started g
     \<and> waitlist (waitForFonts i g) = waitlist g @ [i]
     \<and> pc (waitForFonts i g) i = AwaitingResolve"
  by (simp add: waitForFonts_def set_pc_def)

lemma waiting_caller_is_resumed:
  "map_option (\<lambda>g. (state g, pc g 0, pc g 1, loads_started g))
     (gate_run [Call 0, ImportResolved 0, Call 1, LoadSettled 0 False] new_gate) =
   Some (Loaded, Returned, Returned, 1)"
  by (simp add: new_gate_def waitForFonts_def import_resolved_def load_settled_def
      resolve_def set_pc_def Let_def)

text \<open>
  C3 fails on the code. The call sets \<open>state\<close> to \<open>loading\<close> only after
  \<open>await import("fontfaceobserver")\<close>. A second caller that arrives while the first is
  suspended there finds \<open>state\<close> still \<open>initial\<close> and takes the same branch, and each of
  the two starts a load when it resumes.
\<close>

theorem two_callers_load_twice:
  "map_option state (gate_run [Call 0, Call 1] new_gate) = Some Initial
   \<and> map_option (\<lambda>g. pc g 1) (gate_run [Call 0, Call 1] new_gate) = Some AwaitingImport
   \<and> map_option waitlist (gate_run [Call 0, Call 1] new_gate) = Some []
   \<and> map_option loads_started
        (gate_run [Call 0, Call 1, ImportResolved 0, ImportResolved 1] new_gate) = Some 2"
  by (simp add: new_gate_def waitForFonts_def import_resolved_def set_pc_def)

end
